theory Spec2Isabelle
  imports Main
begin

section \<open>Core types of package xmux\<close>

text \<open>
  The Go code is higher order and effectful: a resolver fills a slot and may fail, a
  business function and a router act on the outside world. Every callback is therefore a
  state transformer on an abstract state.

  \<^item> \<open>'any\<close> is the universe of Go values (the type \<^verbatim>\<open>any\<close>). A generic type
    parameter \<^verbatim>\<open>T\<close> is represented by the zero value of \<^verbatim>\<open>T\<close> in that universe, the
    only thing the code ever obtains from it (\<^verbatim>\<open>var x T\<close>).
  \<^item> \<open>'err\<close> is the set of non-nil \<^verbatim>\<open>error\<close> values; \<open>None\<close> is \<^verbatim>\<open>nil\<close>.
  \<^item> \<open>'ctx\<close> is \<^verbatim>\<open>context.Context\<close>, passed through unread.
  \<^item> \<open>'s\<close> is the state a handler invocation acts on, \<open>'w\<close> the state a registration
    acts on (where a router keeps its routes). They may be instantiated to the same type.

  Callbacks are assumed to return (a Go callback that panics or blocks is outside the model).
\<close>

text \<open>
  \<^verbatim>\<open>type Bind = func(ptr any) (err error)\<close>. The pointer is modelled by the contents of the
  slot it points to: the function receives the current contents and returns the error,
  the new contents and the new state.
\<close>

type_synonym ('any, 'err, 'w) Bind = "'any \<Rightarrow> 'w \<Rightarrow> 'err option \<times> 'any \<times> 'w"

text \<open>\<^verbatim>\<open>map[string]string\<close>, the type of one option map.\<close>

type_synonym Options = "string \<rightharpoonup> string"

text \<open>The interface \<^verbatim>\<open>Handler\<close>: one field per method.\<close>

record ('ctx, 'any, 'err, 's) Handler =
  Invoke :: "'ctx \<Rightarrow> ('any, 'err, 's) Bind \<Rightarrow> 's \<Rightarrow> 'any \<times> 'err option \<times> 's"
  Params :: "'s \<Rightarrow> 'any \<times> 's"
  Response :: "'s \<Rightarrow> 'any \<times> 's"

text \<open>
  The interface \<^verbatim>\<open>Router\<close> has the single method
  \<^verbatim>\<open>Register(method, path, api, options...)\<close> with no result: a function to a state
  transformer. The variadic \<^verbatim>\<open>options\<close> is a list of option maps.
\<close>

type_synonym ('ctx, 'any, 'err, 's, 'w) Router =
  "string \<Rightarrow> string \<Rightarrow> ('ctx, 'any, 'err, 's) Handler \<Rightarrow> Options list \<Rightarrow> 'w \<Rightarrow> 'w"

text \<open>The interface \<^verbatim>\<open>Binder\<close> has the single method \<^verbatim>\<open>Bind(router, bind) error\<close>.\<close>

type_synonym ('ctx, 'any, 'err, 's, 'w) Binder =
  "('ctx, 'any, 'err, 's, 'w) Router \<Rightarrow> ('any, 'err, 'w) Bind \<Rightarrow> 'w \<Rightarrow> 'err option \<times> 'w"

section \<open>Handler implementation\<close>

text \<open>
  \<^verbatim>\<open>type HandlerFunc[Params, Response] func(ctx, bind) (Response, error)\<close> with its three
  methods. The type parameters appear as \<open>zeroParams\<close> and \<open>zeroResponse\<close>.
\<close>

type_synonym ('ctx, 'any, 'err, 's) HandlerFunc =
  "'ctx \<Rightarrow> ('any, 'err, 's) Bind \<Rightarrow> 's \<Rightarrow> 'any \<times> 'err option \<times> 's"

definition HandlerFunc_Invoke ::
  "('ctx, 'any, 'err, 's) HandlerFunc \<Rightarrow> 'ctx \<Rightarrow> ('any, 'err, 's) Bind \<Rightarrow> 's
     \<Rightarrow> 'any \<times> 'err option \<times> 's" where
  "HandlerFunc_Invoke h ctx bind s = h ctx bind s"

definition HandlerFunc_Params ::
  "'any \<Rightarrow> ('ctx, 'any, 'err, 's) HandlerFunc \<Rightarrow> 's \<Rightarrow> 'any \<times> 's" where
  "HandlerFunc_Params zeroParams h s = (let zero = zeroParams in (zero, s))"

definition HandlerFunc_Response ::
  "'any \<Rightarrow> ('ctx, 'any, 'err, 's) HandlerFunc \<Rightarrow> 's \<Rightarrow> 'any \<times> 's" where
  "HandlerFunc_Response zeroResponse h s = (let zero = zeroResponse in (zero, s))"

text \<open>The conversion \<^verbatim>\<open>HandlerFunc[Params, Response](f)\<close>, seen through the interface.\<close>

definition HandlerFunc ::
  "'any \<Rightarrow> 'any \<Rightarrow> ('ctx, 'any, 'err, 's) HandlerFunc \<Rightarrow> ('ctx, 'any, 'err, 's) Handler" where
  "HandlerFunc zeroParams zeroResponse h =
     \<lparr>Invoke = HandlerFunc_Invoke h,
      Params = HandlerFunc_Params zeroParams h,
      Response = HandlerFunc_Response zeroResponse h\<rparr>"

section \<open>Route registration\<close>

text \<open>
  The function literal that \<^verbatim>\<open>Register\<close> wraps around \<open>fn\<close>. \<open>resp\<close> and \<open>err\<close> are
  its named results: the bare \<^verbatim>\<open>return\<close> after a failed \<^verbatim>\<open>bind(&params)\<close> returns
  \<open>resp\<close>, still the zero value, and the error. \<open>fn\<close> receives \<^verbatim>\<open>&params\<close>, modelled
  by the contents of \<open>params\<close> after the resolver has written them.
\<close>

definition Register_func ::
  "'any \<Rightarrow> 'any \<Rightarrow> ('ctx \<Rightarrow> 'any \<Rightarrow> 's \<Rightarrow> 'any \<times> 'err option \<times> 's)
     \<Rightarrow> ('ctx, 'any, 'err, 's) HandlerFunc" where
  "Register_func zeroParams zeroResponse fn ctx bind s =
     (let resp = zeroResponse;
          params = zeroParams;
          (err, params, s) = bind params s
      in if err \<noteq> None then (resp, err, s)
         else fn ctx params s)"

definition Register ::
  "'any \<Rightarrow> 'any \<Rightarrow> ('ctx, 'any, 'err, 's, 'w) Router \<Rightarrow> string \<Rightarrow> string
     \<Rightarrow> ('ctx \<Rightarrow> 'any \<Rightarrow> 's \<Rightarrow> 'any \<times> 'err option \<times> 's) \<Rightarrow> Options list \<Rightarrow> 'w \<Rightarrow> 'w" where
  "Register zeroParams zeroResponse router method path fn options =
     router method path
       (HandlerFunc zeroParams zeroResponse (Register_func zeroParams zeroResponse fn))
       options"

section \<open>Route groups\<close>

text \<open>
  \<^verbatim>\<open>optionsRouter\<close>: the struct and its method \<^verbatim>\<open>Register\<close>. A slice of option maps is
  a list, and \<^verbatim>\<open>append(o.options, options...)\<close> is its value, the concatenation.
\<close>

record ('ctx, 'any, 'err, 's, 'w) optionsRouter =
  o_router :: "('ctx, 'any, 'err, 's, 'w) Router"
  o_options :: "Options list"

definition optionsRouter_Register ::
  "('ctx, 'any, 'err, 's, 'w) optionsRouter \<Rightarrow> ('ctx, 'any, 'err, 's, 'w) Router" where
  "optionsRouter_Register dec method path api options =
     o_router dec method path api (o_options dec @ options)"

text \<open>
  \<^verbatim>\<open>RouterGroup[Handler]\<close>: the struct and its method \<^verbatim>\<open>Bind\<close>. The type parameter
  appears as \<open>zeroHandler\<close>. \<open>err\<close> is the named result, \<^verbatim>\<open>nil\<close> at the final
  \<^verbatim>\<open>return\<close>.
\<close>

record ('ctx, 'any, 'err, 's, 'w) RouterGroup =
  g_register :: "('ctx, 'any, 'err, 's, 'w) Router \<Rightarrow> 'any \<Rightarrow> 'w \<Rightarrow> 'w"

definition RouterGroup_Bind ::
  "'any \<Rightarrow> ('ctx, 'any, 'err, 's, 'w) RouterGroup \<Rightarrow> ('ctx, 'any, 'err, 's, 'w) Binder" where
  "RouterGroup_Bind zeroHandler g router bind w =
     (let handler = zeroHandler;
          (err, handler, w) = bind handler w
      in if err \<noteq> None then (err, w)
         else (err, g_register g router handler w))"

definition DefineGroup ::
  "'any \<Rightarrow> (('ctx, 'any, 'err, 's, 'w) Router \<Rightarrow> 'any \<Rightarrow> 'w \<Rightarrow> 'w) \<Rightarrow> Options list
     \<Rightarrow> ('ctx, 'any, 'err, 's, 'w) Binder" where
  "DefineGroup zeroHandler registerFn options =
     RouterGroup_Bind zeroHandler
       \<lparr>g_register = (\<lambda>router handler.
          registerFn (optionsRouter_Register \<lparr>o_router = router, o_options = options\<rparr>) handler)\<rparr>"

section \<open>Groups collection\<close>

text \<open>
  \<^verbatim>\<open>Groups\<close>. The model is sequential: each method runs from \<^verbatim>\<open>Lock\<close> to the deferred
  \<^verbatim>\<open>Unlock\<close> without interruption, so the mutex \<^verbatim>\<open>mu\<close> has no field. A method with a
  pointer receiver returns the registry it leaves behind.
\<close>

record ('ctx, 'any, 'err, 's, 'w) Groups =
  g_groups :: "('ctx, 'any, 'err, 's, 'w) Binder list"

definition NewGroups :: "('ctx, 'any, 'err, 's, 'w) Groups" where
  "NewGroups = \<lparr>g_groups = []\<rparr>"

definition Groups_Register ::
  "('ctx, 'any, 'err, 's, 'w) Groups \<Rightarrow> ('ctx, 'any, 'err, 's, 'w) Binder list
     \<Rightarrow> ('ctx, 'any, 'err, 's, 'w) Groups" where
  "Groups_Register g groups = g\<lparr>g_groups := g_groups g @ groups\<rparr>"

text \<open>
  The \<^verbatim>\<open>for _, group := range g.groups\<close> loop of \<^verbatim>\<open>Groups.Bind\<close>; the loop variable
  is \<open>grp\<close> here.
\<close>

fun Groups_Bind_loop ::
  "('ctx, 'any, 'err, 's, 'w) Binder list \<Rightarrow> ('ctx, 'any, 'err, 's, 'w) Router
     \<Rightarrow> ('any, 'err, 'w) Bind \<Rightarrow> 'w \<Rightarrow> 'err option \<times> 'w" where
  "Groups_Bind_loop [] router bind w = (None, w)"
| "Groups_Bind_loop (grp # rest) router bind w =
     (case grp router bind w of
        (err, w) \<Rightarrow> if err \<noteq> None then (err, w)
                    else Groups_Bind_loop rest router bind w)"

definition Groups_Bind ::
  "('ctx, 'any, 'err, 's, 'w) Groups \<Rightarrow> ('ctx, 'any, 'err, 's, 'w) Router
     \<Rightarrow> ('any, 'err, 'w) Bind \<Rightarrow> 'w
     \<Rightarrow> 'err option \<times> ('ctx, 'any, 'err, 's, 'w) Groups \<times> 'w" where
  "Groups_Bind g router bind w =
     (case Groups_Bind_loop (g_groups g) router bind w of (err, w) \<Rightarrow> (err, g, w))"

section \<open>Option merging in the Gin adapter\<close>

text \<open>
  \<^verbatim>\<open>mergeOptions\<close> of the gin-business example router. The inner loop
  \<^verbatim>\<open>for k, v := range opts { result[k] = v }\<close> assigns every entry of \<open>opts\<close> into
  \<open>result\<close>; a Go map holds each key once, so the outcome is \<open>result ++ opts\<close> in
  whatever order the entries are visited.
\<close>

fun mergeOptions_loop :: "Options list \<Rightarrow> Options \<Rightarrow> Options" where
  "mergeOptions_loop [] result = result"
| "mergeOptions_loop (opts # rest) result = mergeOptions_loop rest (result ++ opts)"

definition mergeOptions :: "Options list \<Rightarrow> Options" where
  "mergeOptions options = mergeOptions_loop options Map.empty"

section \<open>Properties of the handler adapter\<close>

lemma Register_func_fail:
  "bind zeroParams s = (Some e, params, s1) \<Longrightarrow>
   Register_func zeroParams zeroResponse fn ctx bind s = (zeroResponse, Some e, s1)"
  by (simp add: Register_func_def)

lemma Register_func_ok:
  "bind zeroParams s = (None, params, s1) \<Longrightarrow>
   Register_func zeroParams zeroResponse fn ctx bind s = fn ctx params s1"
  by (simp add: Register_func_def)

lemma Invoke_HandlerFunc [simp]:
  "Invoke (HandlerFunc zeroParams zeroResponse h) ctx bind s = h ctx bind s"
  by (simp add: HandlerFunc_def HandlerFunc_Invoke_def)

text \<open>
  C1. \<open>Register\<close> hands the router the handler
  \<open>HandlerFunc zeroParams zeroResponse (Register_func zeroParams zeroResponse fn)\<close>. Its
  \<open>Invoke\<close> starts the resolver on the zero value of the parameter type. When the
  resolver fails with \<open>e\<close>, \<open>Invoke\<close> returns \<open>e\<close> and the state the resolver
  left: the result does not depend on \<open>fn\<close>, which is not run. When the resolver
  succeeds, \<open>Invoke\<close> is exactly \<open>fn\<close> on the resolved parameter, with result, error
  and state unchanged.
\<close>

theorem Register_handler_Invoke:
  "Register zeroParams zeroResponse router method path fn options w =
     router method path
       (HandlerFunc zeroParams zeroResponse (Register_func zeroParams zeroResponse fn))
       options w
   \<and> (bind zeroParams s = (Some e, params, s1) \<longrightarrow>
      Invoke (HandlerFunc zeroParams zeroResponse (Register_func zeroParams zeroResponse fn))
        ctx bind s = (zeroResponse, Some e, s1))
   \<and> (bind' zeroParams s = (None, params', s1') \<longrightarrow>
      Invoke (HandlerFunc zeroParams zeroResponse (Register_func zeroParams zeroResponse fn))
        ctx bind' s = fn ctx params' s1')"
  by (simp add: Register_def Register_func_fail Register_func_ok)

text \<open>
  An instance with a call counter as state: the business function counts its calls and
  echoes its parameter. After a failed resolution the counter is still 0, after a
  successful one it is 1 and the response is what the resolver wrote.
\<close>

theorem Register_handler_Invoke_witness:
  "Invoke (HandlerFunc [] ''zero'' (Register_func [] ''zero''
       (\<lambda>ctx params n. (params, None, Suc n))))
     () (\<lambda>p n. (Some ''bad request'', p, n)) (0::nat) = (''zero'', Some ''bad request'', 0)
   \<and> Invoke (HandlerFunc [] ''zero'' (Register_func [] ''zero''
       (\<lambda>ctx params n. (params, None :: string option, Suc n))))
     () (\<lambda>p n. (None, ''alice'', n)) (0::nat) = (''alice'', None, 1)"
  using Register_handler_Invoke
    [where bind = "\<lambda>p n. (Some ''bad request'', p, n)" and zeroParams = "[]"
       and s = "0::nat" and e = "''bad request''" and params = "[]" and ?s1.0 = 0
       and zeroResponse = "''zero''" and fn = "\<lambda>ctx params n. (params, None, Suc n)"
       and ctx = "()" and bind' = "\<lambda>p n. (None, ''alice'', n)" and params' = "''alice''"
       and s1' = 0 and router = "\<lambda>m p api os (log :: nat). Suc log" and path = "[]"
       and options = "[]" and w = "0 :: nat",
     of "[]"]
  by simp



text \<open>
  C6. \<open>Register\<close> is one call of the router's \<open>Register\<close>, with the method, the path,
  the adapter and the options as they were given; its only result is the state that call
  leaves. At a router that appends each call it receives to a log, the log grows by that
  single entry.
\<close>

theorem Register_calls_router_once:
  "Register zeroParams zeroResponse router method path fn options w =
     router method path
       (HandlerFunc zeroParams zeroResponse (Register_func zeroParams zeroResponse fn))
       options w
   \<and> Register zeroParams zeroResponse (\<lambda>m p api os log. log @ [(m, p, api, os)])
        method path fn options log =
      log @ [(method, path,
              HandlerFunc zeroParams zeroResponse (Register_func zeroParams zeroResponse fn),
              options)]"
  by (simp add: Register_def)

text \<open>
  C7. \<open>Params\<close> and \<open>Response\<close> of a \<open>HandlerFunc\<close> return the zero value of the
  declared type and leave the state as it was; so does any number \<open>n\<close> of calls in a row.
  Their result type has no error component.
\<close>

theorem HandlerFunc_Params_Response_zero:
  "Params (HandlerFunc zeroParams zeroResponse h) s = (zeroParams, s)
   \<and> Response (HandlerFunc zeroParams zeroResponse h) s = (zeroResponse, s)
   \<and> ((\<lambda>t. snd (Params (HandlerFunc zeroParams zeroResponse h) t)) ^^ n) s = s
   \<and> ((\<lambda>t. snd (Response (HandlerFunc zeroParams zeroResponse h) t)) ^^ n) s = s"
proof -
  have p: "Params (HandlerFunc zeroParams zeroResponse h) t = (zeroParams, t)" for t
    by (simp add: HandlerFunc_def HandlerFunc_Params_def)
  have r: "Response (HandlerFunc zeroParams zeroResponse h) t = (zeroResponse, t)" for t
    by (simp add: HandlerFunc_def HandlerFunc_Response_def)
  have "((\<lambda>t. snd (Params (HandlerFunc zeroParams zeroResponse h) t)) ^^ n) s = s"
    by (induction n) (simp_all add: p)
  moreover have "((\<lambda>t. snd (Response (HandlerFunc zeroParams zeroResponse h) t)) ^^ n) s = s"
    by (induction n) (simp_all add: r)
  ultimately show ?thesis
    by (simp add: p r)
qed

section \<open>Properties of the options decorator\<close>

lemma mergeOptions_loop_acc:
  "mergeOptions_loop xs result = result ++ mergeOptions_loop xs Map.empty"
proof (induction xs arbitrary: result)
  case Nil
  show ?case by simp
next
  case (Cons opts rest)
  have "mergeOptions_loop (opts # rest) result = (result ++ opts) ++ mergeOptions_loop rest Map.empty"
    using Cons.IH [of "result ++ opts"] by simp
  also have "\<dots> = result ++ (opts ++ mergeOptions_loop rest Map.empty)"
    by simp
  also have "opts ++ mergeOptions_loop rest Map.empty = mergeOptions_loop (opts # rest) Map.empty"
    using Cons.IH [of opts] by simp
  finally show ?case .
qed

lemma mergeOptions_loop_append:
  "mergeOptions_loop (xs @ ys) result = mergeOptions_loop ys (mergeOptions_loop xs result)"
  by (induction xs arbitrary: result) simp_all

lemma mergeOptions_append:
  "mergeOptions (xs @ ys) = mergeOptions xs ++ mergeOptions ys"
  unfolding mergeOptions_def mergeOptions_loop_append
  by (rule mergeOptions_loop_acc)

text \<open>
  C3. The decorator passes method, path and handler on to the inner router, with the
  group options followed by the route options. Merging that sequence with
  \<open>mergeOptions\<close> is the merged group options overridden by the merged route options:
  a key the route options set keeps the route's value, any other key keeps the group's.
\<close>

theorem optionsRouter_Register_concat:
  "optionsRouter_Register dec method path api options w =
     o_router dec method path api (o_options dec @ options) w
   \<and> mergeOptions (o_options dec @ options) = mergeOptions (o_options dec) ++ mergeOptions options
   \<and> (mergeOptions options k = Some v \<longrightarrow> mergeOptions (o_options dec @ options) k = Some v)
   \<and> (mergeOptions options k = None \<longrightarrow>
        mergeOptions (o_options dec @ options) k = mergeOptions (o_options dec) k)"
  by (simp add: optionsRouter_Register_def mergeOptions_append map_add_def)

text \<open>
  The example of the specification: group options \<open>{x: 0, y: 2}\<close>, route options
  \<open>{x: 1}\<close>, at an inner router that logs the merged values of \<open>x\<close>, \<open>y\<close> and \<open>z\<close>.
\<close>

theorem optionsRouter_Register_concat_witness:
  "optionsRouter_Register
     \<lparr>o_router = (\<lambda>m p api os log.
        log @ [(m, p, mergeOptions os ''x'', mergeOptions os ''y'', mergeOptions os ''z'')]),
      o_options = [[''x'' \<mapsto> ''0'', ''y'' \<mapsto> ''2'']]\<rparr>
     ''GET'' ''/users'' (HandlerFunc () () (\<lambda>ctx bind s. ((), None :: unit option, s :: unit)))
     [[''x'' \<mapsto> ''1'']] []
   = [(''GET'', ''/users'', Some ''1'', Some ''2'', None)]
   \<and> mergeOptions [[''x'' \<mapsto> ''1'']] ''x'' = Some ''1''
   \<and> mergeOptions [[''x'' \<mapsto> ''1'']] ''y'' = None
   \<and> mergeOptions ([[''x'' \<mapsto> ''0'', ''y'' \<mapsto> ''2'']] @ [[''x'' \<mapsto> ''1'']]) ''x'' = Some ''1''
   \<and> mergeOptions ([[''x'' \<mapsto> ''0'', ''y'' \<mapsto> ''2'']] @ [[''x'' \<mapsto> ''1'']]) ''y'' = Some ''2''"
  using optionsRouter_Register_concat
    [where dec = "\<lparr>o_router = (\<lambda>m p api os log.
        log @ [(m, p, mergeOptions os ''x'', mergeOptions os ''y'', mergeOptions os ''z'')]),
      o_options = [[''x'' \<mapsto> ''0'', ''y'' \<mapsto> ''2'']]\<rparr>"
       and path = "''/users''"
       and api = "HandlerFunc () () (\<lambda>ctx bind s. ((), None :: unit option, s :: unit))"
       and options = "[[''x'' \<mapsto> ''1'']]" and w = "[]" and k = "''x''" and v = "''1''",
     of "''GET''"]
  by (simp add: mergeOptions_def)

section \<open>Properties of a route group\<close>

lemma RouterGroup_Bind_fail:
  "bind zeroHandler w = (Some e, handler, w1) \<Longrightarrow>
   RouterGroup_Bind zeroHandler g router bind w = (Some e, w1)"
  by (simp add: RouterGroup_Bind_def)

lemma RouterGroup_Bind_ok:
  "bind zeroHandler w = (None, handler, w1) \<Longrightarrow>
   RouterGroup_Bind zeroHandler g router bind w = (None, g_register g router handler w1)"
  by (simp add: RouterGroup_Bind_def)

text \<open>
  C5. \<open>Bind\<close> of a group made by \<open>DefineGroup\<close> starts the resolver on the zero value
  of the dependency type. When the resolver fails with \<open>e\<close>, \<open>Bind\<close> returns \<open>e\<close>
  and the state the resolver left: neither the registration function nor the router has
  acted on it. When the resolver succeeds, \<open>Bind\<close> returns no error and the state is the
  one the registration function leaves, run on the router decorated with the group's
  options and on the resolved dependency.
\<close>

theorem DefineGroup_Bind:
  "(bind zeroHandler w = (Some e, handler, w1) \<longrightarrow>
      DefineGroup zeroHandler registerFn options router bind w = (Some e, w1))
   \<and> (bind' zeroHandler w = (None, handler', w1') \<longrightarrow>
      DefineGroup zeroHandler registerFn options router bind' w =
        (None, registerFn (optionsRouter_Register \<lparr>o_router = router, o_options = options\<rparr>)
                 handler' w1'))"
  by (simp add: DefineGroup_def RouterGroup_Bind_fail RouterGroup_Bind_ok)

text \<open>
  An instance: the group registers one route through \<open>Register\<close>, under the path named
  by its dependency; the router logs method, path and the merged option \<open>auth\<close>.
\<close>

theorem DefineGroup_Bind_witness:
  "DefineGroup ''nil''
     (\<lambda>router handler. Register [] [] router ''GET'' handler
        (\<lambda>(ctx :: unit) params s. (params, None :: string option, s :: unit)) [[''auth'' \<mapsto> ''off'']])
     [[''auth'' \<mapsto> ''on'']]
     (\<lambda>m p api os log. log @ [(m, p, mergeOptions os ''auth'')])
     (\<lambda>p log. (Some ''no such dependency'', p, log)) []
   = (Some ''no such dependency'', [])
   \<and> DefineGroup ''nil''
     (\<lambda>router handler. Register [] [] router ''GET'' handler
        (\<lambda>(ctx :: unit) params s. (params, None :: string option, s :: unit)) [[''auth'' \<mapsto> ''off'']])
     [[''auth'' \<mapsto> ''on'']]
     (\<lambda>m p api os log. log @ [(m, p, mergeOptions os ''auth'')])
     (\<lambda>p log. (None, ''/users'', log)) []
   = (None, [(''GET'', ''/users'', Some ''off'')])"
  using DefineGroup_Bind
    [where bind = "\<lambda>p log. (Some ''no such dependency'', p, log)" and zeroHandler = "''nil''"
       and w = "[]" and e = "''no such dependency''" and handler = "''nil''" and ?w1.0 = "[]"
       and registerFn = "\<lambda>router handler. Register [] [] router ''GET'' handler
         (\<lambda>(ctx :: unit) params s. (params, None :: string option, s :: unit)) [[''auth'' \<mapsto> ''off'']]"
       and options = "[[''auth'' \<mapsto> ''on'']]"
       and router = "\<lambda>m p api os log. log @ [(m, p, mergeOptions os ''auth'')]"
       and bind' = "\<lambda>p log. (None, ''/users'', log)" and handler' = "''/users''"
       and w1' = "[]"]
  by (simp add: Register_def optionsRouter_Register_def mergeOptions_def)

section \<open>Properties of the group registry\<close>

lemma Groups_Bind_loop_append:
  "Groups_Bind_loop (xs @ ys) router bind w =
     (case Groups_Bind_loop xs router bind w of
        (err, w1) \<Rightarrow> if err \<noteq> None then (err, w1) else Groups_Bind_loop ys router bind w1)"
  by (induction xs arbitrary: w) (auto split: prod.splits)

lemma Groups_Bind_loop_all_ok:
  "(\<And>grp w. grp \<in> set xs \<Longrightarrow> fst (grp router bind w) = None) \<Longrightarrow>
   fst (Groups_Bind_loop xs router bind w) = None"
proof (induction xs arbitrary: w)
  case Nil
  show ?case by simp
next
  case (Cons grp rest)
  have "fst (grp router bind w) = None"
    by (rule Cons.prems) simp
  moreover have "fst (Groups_Bind_loop rest router bind w') = None" for w'
    by (rule Cons.IH) (simp add: Cons.prems)
  ultimately show ?case
    by (cases "grp router bind w") auto
qed

lemma Groups_Bind_loop_error_origin:
  "Groups_Bind_loop xs router bind w = (Some e, w2) \<Longrightarrow>
   \<exists>pre grp post w1. xs = pre @ grp # post
     \<and> Groups_Bind_loop pre router bind w = (None, w1)
     \<and> grp router bind w1 = (Some e, w2)"
proof (induction xs arbitrary: w)
  case Nil
  then show ?case by simp
next
  case (Cons x xs)
  obtain err w' where x: "x router bind w = (err, w')"
    by (cases "x router bind w")
  show ?case
  proof (cases err)
    case None
    with Cons.prems x have "Groups_Bind_loop xs router bind w' = (Some e, w2)"
      by simp
    then obtain pre grp post w1 where
      "xs = pre @ grp # post" "Groups_Bind_loop pre router bind w' = (None, w1)"
      "grp router bind w1 = (Some e, w2)"
      using Cons.IH by blast
    then have "x # xs = (x # pre) @ grp # post
        \<and> Groups_Bind_loop (x # pre) router bind w = (None, w1)
        \<and> grp router bind w1 = (Some e, w2)"
      using x None by simp
    then show ?thesis by blast
  next
    case (Some e')
    with Cons.prems x have "e' = e" "w' = w2"
      by simp_all
    then have "x # xs = [] @ x # xs
        \<and> Groups_Bind_loop [] router bind w = (None, w)
        \<and> x router bind w = (Some e, w2)"
      using x Some by simp
    then show ?thesis by blast
  qed
qed

lemma Groups_Bind_unchanged:
  "Groups_Bind g router bind w = (err, g', w') \<Longrightarrow> g' = g"
  by (auto simp: Groups_Bind_def split: prod.splits)

text \<open>
  C2. Let the groups before \<open>grp\<close>, bound in order from state \<open>w\<close>, all succeed and
  leave state \<open>w1\<close>, and let \<open>grp\<close> fail there with \<open>e\<close>, leaving \<open>w2\<close>. Then
  \<open>Groups.Bind\<close> returns \<open>e\<close> and the state \<open>w2\<close>: what the earlier groups did to the
  router's state is kept, and the result is the same for every sequence \<open>post\<close> of later
  groups, none of which is run. When every group succeeds, \<open>Groups.Bind\<close> returns no
  error. Conversely an error that \<open>Groups.Bind\<close> returns is the error of a group
  whose predecessors all succeeded, and the state is the one that group left.
\<close>

theorem Groups_Bind_fail_fast:
  "(Groups_Bind_loop pre router bind w = (None, w1) \<and> grp router bind w1 = (Some e, w2) \<longrightarrow>
      Groups_Bind \<lparr>g_groups = pre @ grp # post\<rparr> router bind w =
        (Some e, \<lparr>g_groups = pre @ grp # post\<rparr>, w2))
   \<and> ((\<forall>grp \<in> set (g_groups g). \<forall>w. fst (grp router bind w) = None) \<longrightarrow>
        fst (Groups_Bind g router bind w) = None)
   \<and> (fst (Groups_Bind g' router bind w) = Some e' \<longrightarrow>
        (\<exists>pre grp post w1 w2.
           g_groups g' = pre @ grp # post
           \<and> Groups_Bind_loop pre router bind w = (None, w1)
           \<and> grp router bind w1 = (Some e', w2)
           \<and> Groups_Bind g' router bind w = (Some e', g', w2)))"
proof (intro conjI impI)
  assume "Groups_Bind_loop pre router bind w = (None, w1) \<and> grp router bind w1 = (Some e, w2)"
  then show "Groups_Bind \<lparr>g_groups = pre @ grp # post\<rparr> router bind w =
      (Some e, \<lparr>g_groups = pre @ grp # post\<rparr>, w2)"
    by (simp add: Groups_Bind_def Groups_Bind_loop_append)
next
  assume "\<forall>grp \<in> set (g_groups g). \<forall>w. fst (grp router bind w) = None"
  then have "fst (Groups_Bind_loop (g_groups g) router bind w) = None"
    by (intro Groups_Bind_loop_all_ok) simp
  then show "fst (Groups_Bind g router bind w) = None"
    by (cases "Groups_Bind_loop (g_groups g) router bind w") (simp add: Groups_Bind_def)
next
  assume failed: "fst (Groups_Bind g' router bind w) = Some e'"
  obtain w3 where loop: "Groups_Bind_loop (g_groups g') router bind w = (Some e', w3)"
    using failed
    by (cases "Groups_Bind_loop (g_groups g') router bind w") (simp add: Groups_Bind_def)
  from Groups_Bind_loop_error_origin [OF loop]
  obtain pre grp post w1 where
    "g_groups g' = pre @ grp # post" "Groups_Bind_loop pre router bind w = (None, w1)"
    "grp router bind w1 = (Some e', w3)"
    by blast
  moreover have "Groups_Bind g' router bind w = (Some e', g', w3)"
    by (simp add: Groups_Bind_def loop)
  ultimately show "\<exists>pre grp post w1 w2.
      g_groups g' = pre @ grp # post
      \<and> Groups_Bind_loop pre router bind w = (None, w1)
      \<and> grp router bind w1 = (Some e', w2)
      \<and> Groups_Bind g' router bind w = (Some e', g', w2)"
    by blast
qed

text \<open>
  The example of the specification, with a third group after the failing one. Group
  \<open>A\<close> depends on \<open>IUser\<close>, which the resolver provides, and registers two routes;
  group \<open>B\<close> depends on \<open>IOrder\<close>, which the resolver does not know. The router logs
  method and path. Binding \<open>[A, B, A]\<close> returns the resolver's error with the two routes
  of the first \<open>A\<close> in the log and nothing else; binding \<open>[A]\<close> alone returns no error.
\<close>

theorem Groups_Bind_fail_fast_witness:
  "(let router = (\<lambda>m p api os log. log @ [(m, p)]);
        bind = (\<lambda>p log. if p = ''IUser'' then (None, ''/users'', log)
                          else (Some ''unknown dependency'', p, log));
        fn = (\<lambda>(ctx :: unit) params (s :: nat). (params, None :: string option, s));
        A = DefineGroup ''IUser'' (\<lambda>router handler log.
              Register [] [] router ''POST'' handler fn []
                (Register [] [] router ''GET'' handler fn [] log)) [];
        B = DefineGroup ''IOrder'' (\<lambda>router handler.
              Register [] [] router ''GET'' ''/orders'' fn []) []
    in Groups_Bind \<lparr>g_groups = [A, B, A]\<rparr> router bind [] =
         (Some ''unknown dependency'', \<lparr>g_groups = [A, B, A]\<rparr>,
          [(''GET'', ''/users''), (''POST'', ''/users'')])
       \<and> fst (Groups_Bind \<lparr>g_groups = [A]\<rparr> router bind []) = None)"
proof -
  let ?router = "\<lambda>(m :: string) (p :: string)
      (api :: (unit, string, string, nat) Handler) (os :: Options list) log. log @ [(m, p)]"
  let ?bind = "\<lambda>p (log :: (string \<times> string) list).
      if p = ''IUser'' then (None, ''/users'', log) else (Some ''unknown dependency'', p, log)"
  let ?fn = "\<lambda>(ctx :: unit) (params :: string) (s :: nat). (params, None :: string option, s)"
  let ?A = "DefineGroup ''IUser'' (\<lambda>router handler log.
      Register [] [] router ''POST'' handler ?fn []
        (Register [] [] router ''GET'' handler ?fn [] log)) []"
  let ?B = "DefineGroup ''IOrder'' (\<lambda>router handler.
      Register [] [] router ''GET'' ''/orders'' ?fn []) []"
  have A: "?A ?router ?bind log = (None, log @ [(''GET'', ''/users''), (''POST'', ''/users'')])"
    for log
    by (simp add: DefineGroup_def RouterGroup_Bind_def Register_def optionsRouter_Register_def)
  have B: "?B ?router ?bind log = (Some ''unknown dependency'', log)" for log
    by (simp add: DefineGroup_def RouterGroup_Bind_def)
  have earlier: "Groups_Bind_loop [?A] ?router ?bind [] =
      (None, [(''GET'', ''/users''), (''POST'', ''/users'')])
    \<and> ?B ?router ?bind [(''GET'', ''/users''), (''POST'', ''/users'')] =
      (Some ''unknown dependency'', [(''GET'', ''/users''), (''POST'', ''/users'')])"
    unfolding B by (simp add: A)
  have all_ok: "\<forall>grp \<in> set (g_groups \<lparr>g_groups = [?A]\<rparr>). \<forall>w. fst (grp ?router ?bind w) = None"
    by (simp add: A)
  from earlier all_ok
    Groups_Bind_fail_fast [where pre = "[?A]" and grp = ?B and post = "[?A]"
      and router = ?router and bind = ?bind and w = "[]"
      and ?w1.0 = "[(''GET'', ''/users''), (''POST'', ''/users'')]"
      and e = "''unknown dependency''"
      and ?w2.0 = "[(''GET'', ''/users''), (''POST'', ''/users'')]"
      and g = "\<lparr>g_groups = [?A]\<rparr>" and g' = "\<lparr>g_groups = [?A, ?B, ?A]\<rparr>"
      and e' = "''unknown dependency''"]
  show ?thesis
    unfolding Let_def by simp
qed

text \<open>
  C4. \<open>Groups.Register\<close> appends to the sequence, and \<open>Groups.Bind\<close> on the extended
  registry is \<open>Groups.Bind\<close> on the groups that were there, followed, if they all
  succeed, by the new groups in the order given. After \<open>[A, B]\<close> and then \<open>[C]\<close>
  the sequence is \<open>[A, B, C]\<close> and \<open>Groups.Bind\<close> runs \<open>A\<close> on the initial state,
  \<open>B\<close> on the state \<open>A\<close> leaves and \<open>C\<close> on the state \<open>B\<close> leaves, stopping at
  the first error.
\<close>

theorem Groups_insertion_order:
  "g_groups (Groups_Register g groups) = g_groups g @ groups
   \<and> Groups_Bind (Groups_Register g groups) router bind w =
       (case Groups_Bind g router bind w of
          (Some e, g', w1) \<Rightarrow> (Some e, Groups_Register g groups, w1)
        | (None, g', w1) \<Rightarrow>
            (case Groups_Bind \<lparr>g_groups = groups\<rparr> router bind w1 of
               (err, g'', w2) \<Rightarrow> (err, Groups_Register g groups, w2)))
   \<and> g_groups (Groups_Register (Groups_Register NewGroups [A, B]) [C]) = [A, B, C]
   \<and> Groups_Bind (Groups_Register (Groups_Register NewGroups [A, B]) [C]) router bind w =
       (case A router bind w of
          (Some e, w1) \<Rightarrow> (Some e, \<lparr>g_groups = [A, B, C]\<rparr>, w1)
        | (None, w1) \<Rightarrow>
            (case B router bind w1 of
               (Some e, w2) \<Rightarrow> (Some e, \<lparr>g_groups = [A, B, C]\<rparr>, w2)
             | (None, w2) \<Rightarrow>
                 (case C router bind w2 of
                    (err, w3) \<Rightarrow> (err, \<lparr>g_groups = [A, B, C]\<rparr>, w3))))"
proof (intro conjI)
  show "g_groups (Groups_Register g groups) = g_groups g @ groups"
    by (simp add: Groups_Register_def)
  show "Groups_Bind (Groups_Register g groups) router bind w =
       (case Groups_Bind g router bind w of
          (Some e, g', w1) \<Rightarrow> (Some e, Groups_Register g groups, w1)
        | (None, g', w1) \<Rightarrow>
            (case Groups_Bind \<lparr>g_groups = groups\<rparr> router bind w1 of
               (err, g'', w2) \<Rightarrow> (err, Groups_Register g groups, w2)))"
    by (simp add: Groups_Bind_def Groups_Register_def Groups_Bind_loop_append
        split: prod.splits option.splits)
  show "g_groups (Groups_Register (Groups_Register NewGroups [A, B]) [C]) = [A, B, C]"
    by (simp add: Groups_Register_def NewGroups_def)
  show "Groups_Bind (Groups_Register (Groups_Register NewGroups [A, B]) [C]) router bind w =
       (case A router bind w of
          (Some e, w1) \<Rightarrow> (Some e, \<lparr>g_groups = [A, B, C]\<rparr>, w1)
        | (None, w1) \<Rightarrow>
            (case B router bind w1 of
               (Some e, w2) \<Rightarrow> (Some e, \<lparr>g_groups = [A, B, C]\<rparr>, w2)
             | (None, w2) \<Rightarrow>
                 (case C router bind w2 of
                    (err, w3) \<Rightarrow> (err, \<lparr>g_groups = [A, B, C]\<rparr>, w3))))"
    by (simp add: Groups_Bind_def Groups_Register_def NewGroups_def
        split: prod.splits option.splits)
qed

text \<open>An instance in which each group appends its name to a log: the log reads A, B, C.\<close>

theorem Groups_insertion_order_witness:
  "Groups_Bind
     (Groups_Register
        (Groups_Register NewGroups
           [\<lambda>router bind log. (None, log @ [''A'']), \<lambda>router bind log. (None, log @ [''B''])])
        [\<lambda>router bind log. (None, log @ [''C''])])
     (\<lambda>m p (api :: (unit, nat, string, nat) Handler) os log. log)
     (\<lambda>p log. (None :: string option, p :: nat, log)) []
   = (None,
      \<lparr>g_groups =
         [\<lambda>router bind log. (None, log @ [''A'']), \<lambda>router bind log. (None, log @ [''B'']),
          \<lambda>router bind log. (None, log @ [''C''])]\<rparr>,
      [''A'', ''B'', ''C''])"
  using Groups_insertion_order
    [where g = NewGroups and groups = "[]" and A = "\<lambda>router bind log. (None, log @ [''A''])"
       and B = "\<lambda>router bind log. (None, log @ [''B''])"
       and C = "\<lambda>router bind log. (None, log @ [''C''])"
       and router = "\<lambda>m p (api :: (unit, nat, string, nat) Handler) os log. log"
       and bind = "\<lambda>p log. (None :: string option, p :: nat, log)" and w = "[]"]
  by simp

text \<open>
  C8. \<open>Groups.Bind\<close> returns the registry as it found it. A second \<open>Groups.Bind\<close>
  therefore runs the loop over the same sequence again, from the state the first one left;
  when the first one succeeded, the two calls together do what one pass over the sequence
  followed by itself does.
\<close>

theorem Groups_Bind_rebind:
  "Groups_Bind g router bind w = (err, g', w') \<Longrightarrow>
   g' = g
   \<and> Groups_Bind g' router' bind' w' =
       (case Groups_Bind_loop (g_groups g) router' bind' w' of (err', w'') \<Rightarrow> (err', g, w''))
   \<and> (err = None \<longrightarrow>
        Groups_Bind g' router bind w' =
          (case Groups_Bind_loop (g_groups g @ g_groups g) router bind w of
             (err', w'') \<Rightarrow> (err', g, w'')))"
proof -
  assume first: "Groups_Bind g router bind w = (err, g', w')"
  then have same: "g' = g"
    by (rule Groups_Bind_unchanged)
  from first have loop: "Groups_Bind_loop (g_groups g) router bind w = (err, w')"
    by (auto simp: Groups_Bind_def split: prod.splits)
  show ?thesis
    by (simp add: same Groups_Bind_def Groups_Bind_loop_append loop)
qed

text \<open>
  An instance with two groups that append their names to a log: after the first
  \<open>Groups.Bind\<close> the log reads A, B, after the second A, B, A, B.
\<close>

theorem Groups_Bind_rebind_witness:
  "(let g = \<lparr>g_groups =
        [\<lambda>router bind log. (None, log @ [''A'']), \<lambda>router bind log. (None, log @ [''B''])]\<rparr>;
        router = (\<lambda>m p (api :: (unit, nat, string, nat) Handler) os log. log);
        bind = (\<lambda>p log. (None :: string option, p :: nat, log))
    in Groups_Bind g router bind [] = (None, g, [''A'', ''B''])
       \<and> Groups_Bind g router bind [''A'', ''B''] = (None, g, [''A'', ''B'', ''A'', ''B'']))"
proof -
  let ?g = "\<lparr>g_groups =
      [\<lambda>router bind log. (None, log @ [''A'']), \<lambda>router bind log. (None, log @ [''B''])]\<rparr>
    :: (unit, nat, string, nat, string list) Groups"
  let ?router = "\<lambda>(m :: string) (p :: string) (api :: (unit, nat, string, nat) Handler)
      (os :: Options list) (log :: string list). log"
  let ?bind = "\<lambda>(p :: nat) (log :: string list). (None :: string option, p, log)"
  have first: "Groups_Bind ?g ?router ?bind [] = (None, ?g, [''A'', ''B''])"
    by (simp add: Groups_Bind_def)
  from Groups_Bind_rebind [OF first, where router' = ?router and bind' = ?bind] first
  show ?thesis
    unfolding Let_def by simp
qed

end
